theory Spec2Isabelle
  imports Complex_Main "HOL-Library.Char_ord" "HOL-Library.List_Lexorder"
begin

section \<open>Python text\<close>

text \<open>
  A Python \<open>str\<close> is modelled as a \<open>string\<close> whose characters are the code points
  below 256. The character classes below are Python's on that range: \<open>\d\<close> of a
  \<open>str\<close> pattern is the decimal digits \<open>0\<close>..\<open>9\<close>, \<open>str.isdigit\<close> also accepts the
  superscripts 1, 2, 3 (code points 185, 178, 179), and \<open>\s\<close>, \<open>str.strip\<close> and
  \<open>str.split\<close> use the white space of \<open>str.isspace\<close>.
\<close>

definition code :: "char \<Rightarrow> nat" where
  "code c = of_char c"

definition is_decimal :: "char \<Rightarrow> bool" where
  "is_decimal c = (48 \<le> code c \<and> code c \<le> 57)"

definition isdigit :: "char \<Rightarrow> bool" where
  "isdigit c = (is_decimal c \<or> code c = 178 \<or> code c = 179 \<or> code c = 185)"

definition isspace :: "char \<Rightarrow> bool" where
  "isspace c =
     ((9 \<le> code c \<and> code c \<le> 13) \<or> (28 \<le> code c \<and> code c \<le> 32)
      \<or> code c = 133 \<or> code c = 160)"

definition lower_char :: "char \<Rightarrow> char" where
  "lower_char c =
     (let n = code c
      in if (65 \<le> n \<and> n \<le> 90) \<or> (192 \<le> n \<and> n \<le> 222 \<and> n \<noteq> 215)
         then char_of (n + 32) else c)"

text \<open>
  The simple upper-case mapping of one character, as the regex engine uses it. The
  upper-case forms of code points 181 and 255 lie beyond 255 and that of 223 is two
  letters; the three are left as they are here, and \<open>upper\<close> below expands 223.
\<close>

definition upper_char :: "char \<Rightarrow> char" where
  "upper_char c =
     (let n = code c
      in if (97 \<le> n \<and> n \<le> 122) \<or> (224 \<le> n \<and> n \<le> 254 \<and> n \<noteq> 247)
         then char_of (n - 32) else c)"

definition lower :: "string \<Rightarrow> string" where
  "lower s = map lower_char s"

definition upper :: "string \<Rightarrow> string" where
  "upper s = concat (map (\<lambda>c. if code c = 223 then ''SS'' else [upper_char c]) s)"

text \<open>\<open>sub in s\<close> on two strings: \<open>sub\<close> occurs in \<open>s\<close> as a contiguous run.\<close>

fun startswith :: "string \<Rightarrow> string \<Rightarrow> bool" where
  "startswith s [] = True"
| "startswith [] (p # ps) = False"
| "startswith (c # cs) (p # ps) = (c = p \<and> startswith cs ps)"

fun str_in :: "string \<Rightarrow> string \<Rightarrow> bool" where
  "str_in sub [] = (sub = [])"
| "str_in sub (c # cs) = (startswith (c # cs) sub \<or> str_in sub cs)"

definition strip :: "string \<Rightarrow> string" where
  "strip s = rev (dropWhile isspace (rev (dropWhile isspace s)))"

text \<open>\<open>sep.join(xs)\<close>.\<close>

fun join :: "string \<Rightarrow> string list \<Rightarrow> string" where
  "join sep [] = []"
| "join sep [x] = x"
| "join sep (x # y # ys) = x @ sep @ join sep (y # ys)"

section \<open>Regular expressions\<close>

text \<open>
  The patterns of the extractors use literals, the classes \<open>\d\<close> and \<open>\s\<close>, bracket
  classes, concatenation, alternation, the greedy \<open>?\<close>, \<open>*\<close> and \<open>+\<close>, and capturing
  groups that are neither nested nor repeated. \<open>rx\<close> is that fragment; non-capturing
  groups \<open>(?:...)\<close> are the bracketing of the term.
\<close>

datatype atom = Lit char | Digit | Space | Range char char

fun atom_in :: "atom \<Rightarrow> char \<Rightarrow> bool" where
  "atom_in (Lit p) x = (x = p)"
| "atom_in Digit x = is_decimal x"
| "atom_in Space x = isspace x"
| "atom_in (Range a b) x = (code a \<le> code x \<and> code x \<le> code b)"

text \<open>
  One character against a class. Under \<open>re.IGNORECASE\<close> the engine lowers the
  character and tries the class on it, then on the upper case of that.
\<close>

definition class_ok :: "bool \<Rightarrow> atom list \<Rightarrow> char \<Rightarrow> bool" where
  "class_ok ic as x =
     (if ic
      then list_ex (\<lambda>a. atom_in a (lower_char x) \<or> atom_in a (upper_char (lower_char x))) as
      else list_ex (\<lambda>a. atom_in a x) as)"

datatype rx =
    Eps
  | In "atom list"
  | Cat rx rx
  | Alt rx rx
  | Opt rx
  | Star rx
  | Plus rx
  | Grp rx

text \<open>A literal string, and one character of a single class.\<close>

fun lit :: "string \<Rightarrow> rx" where
  "lit [] = Eps"
| "lit [c] = In [Lit c]"
| "lit (c # d # cs) = Cat (In [Lit c]) (lit (d # cs))"

abbreviation digit :: rx where "digit \<equiv> In [Digit]"
abbreviation space :: rx where "space \<equiv> In [Space]"

text \<open>
  A matcher state is the groups captured so far and the text still to read. \<open>rmatch\<close>
  lists the states in which a pattern can end, in the order the backtracking engine
  tries them: a greedy operator first with one more repetition, an alternation first
  with its left branch. The loop of \<open>*\<close> is \<open>star_iter\<close>; every round has to consume
  a character, so the length of the text bounds the rounds.
\<close>

type_synonym mstate = "string list \<times> string"

fun star_iter :: "(mstate \<Rightarrow> mstate list) \<Rightarrow> nat \<Rightarrow> mstate \<Rightarrow> mstate list" where
  "star_iter f 0 st = [st]"
| "star_iter f (Suc n) st =
     concat (map (\<lambda>st'. if length (snd st') < length (snd st) then star_iter f n st' else [])
                 (f st)) @ [st]"

primrec rmatch :: "rx \<Rightarrow> bool \<Rightarrow> mstate \<Rightarrow> mstate list" where
  "rmatch Eps ic st = [st]"
| "rmatch (In as) ic st =
     (case snd st of
        [] \<Rightarrow> []
      | x # xs \<Rightarrow> if class_ok ic as x then [(fst st, xs)] else [])"
| "rmatch (Cat r1 r2) ic st = concat (map (rmatch r2 ic) (rmatch r1 ic st))"
| "rmatch (Alt r1 r2) ic st = rmatch r1 ic st @ rmatch r2 ic st"
| "rmatch (Opt r) ic st = rmatch r ic st @ [st]"
| "rmatch (Star r) ic st = star_iter (rmatch r ic) (length (snd st)) st"
| "rmatch (Plus r) ic st =
     concat (map (\<lambda>st'. star_iter (rmatch r ic) (length (snd st')) st') (rmatch r ic st))"
| "rmatch (Grp r) ic st =
     map (\<lambda>st'. (fst st' @ [take (length (snd st) - length (snd st')) (snd st)], snd st'))
         (rmatch r ic st)"

text \<open>
  A match object: \<open>group()\<close> and the numbered groups. \<open>match_at\<close> is the first way the
  pattern matches at the start of the text, \<open>re_search\<close> the leftmost position with a
  match, \<open>re_finditer\<close> the successive matches that do not overlap.
\<close>

record rmatch_obj =
  group0 :: string
  groups :: "string list"

definition match_at :: "rx \<Rightarrow> bool \<Rightarrow> string \<Rightarrow> rmatch_obj option" where
  "match_at r ic s =
     (case rmatch r ic ([], s) of
        [] \<Rightarrow> None
      | st # _ \<Rightarrow> Some \<lparr>group0 = take (length s - length (snd st)) s, groups = fst st\<rparr>)"

fun re_search :: "rx \<Rightarrow> bool \<Rightarrow> string \<Rightarrow> rmatch_obj option" where
  "re_search r ic [] = match_at r ic []"
| "re_search r ic (c # cs) =
     (case match_at r ic (c # cs) of
        Some m \<Rightarrow> Some m
      | None \<Rightarrow> re_search r ic cs)"

function re_finditer :: "rx \<Rightarrow> bool \<Rightarrow> string \<Rightarrow> rmatch_obj list" where
  "re_finditer r ic s =
     (if s = [] then []
      else case match_at r ic s of
             None \<Rightarrow> re_finditer r ic (tl s)
           | Some m \<Rightarrow> m # re_finditer r ic (drop (max 1 (length (group0 m))) s))"
  by pat_completeness auto
termination
  by (relation "measure (\<lambda>(r, ic, s). length s)") auto

text \<open>\<open>m.group(i)\<close> for \<open>i \<ge> 1\<close>; every pattern here sets all its groups when it matches.\<close>

definition group :: "rmatch_obj \<Rightarrow> nat \<Rightarrow> string" where
  "group m i = groups m ! (i - 1)"

section \<open>Spec tables\<close>

text \<open>
  The technical specifications of a page: a \<open>Dict[str, str]\<close> from field name to
  cleaned text. \<open>first_present\<close> is
  \<open>next((specs.get(key, '') for key in keys if key in specs), '')\<close>.
\<close>

type_synonym specs = "string \<rightharpoonup> string"

fun first_present :: "specs \<Rightarrow> string list \<Rightarrow> string" where
  "first_present specs [] = []"
| "first_present specs (k # ks) =
     (case specs k of Some v \<Rightarrow> v | None \<Rightarrow> first_present specs ks)"

text \<open>\<open>for x in xs: if p(x): result = f(x); break\<close>, leaving the default otherwise.\<close>

fun first_where :: "('a \<Rightarrow> bool) \<Rightarrow> 'a list \<Rightarrow> 'a option" where
  "first_where p [] = None"
| "first_where p (x # xs) = (if p x then Some x else first_where p xs)"

section \<open>The RAM extractor\<close>

record ram_info =
  ram_size :: string
  ram_type :: string
  ram_speed :: string

definition ram_types :: "string list" where
  "ram_types = [''DDR4'', ''DDR5'', ''LPDDR4'', ''LPDDR4X'', ''LPDDR5'']"

text \<open>\<open>(\d+)\s*GB\<close> and \<open>(\d+)\s*MHz\<close>, both searched with \<open>re.IGNORECASE\<close>.\<close>

definition ram_size_rx :: rx where
  "ram_size_rx = Cat (Grp (Plus digit)) (Cat (Star space) (lit ''GB''))"

definition ram_speed_rx :: rx where
  "ram_speed_rx = Cat (Grp (Plus digit)) (Cat (Star space) (lit ''MHz''))"

definition extract_ram_info :: "specs \<Rightarrow> ram_info" where
  "extract_ram_info specs =
     (let result = \<lparr>ram_size = '''', ram_type = '''', ram_speed = ''''\<rparr>;
          ram_info = first_present specs [''ram'', ''memory'', ''ram_memory_installed_size'']
      in if ram_info \<noteq> [] then
           let result = (case re_search ram_size_rx True ram_info of
                           Some m \<Rightarrow> result\<lparr>ram_size := group m 1 @ ''GB''\<rparr>
                         | None \<Rightarrow> result);
               result = (case first_where (\<lambda>t. str_in t ram_info) ram_types of
                           Some t \<Rightarrow> result\<lparr>ram_type := t\<rparr>
                         | None \<Rightarrow> result);
               result = (case re_search ram_speed_rx True ram_info of
                           Some m \<Rightarrow> result\<lparr>ram_speed := group m 1 @ ''MHz''\<rparr>
                         | None \<Rightarrow> result)
           in result
         else result)"

section \<open>Python floats\<close>

text \<open>
  A float is modelled by the rational number its decimal literal denotes, so that
  \<open>float\<close>, the products with the unit factors and \<open>round\<close> are exact decimal
  arithmetic. \<open>float(s)\<close> is modelled on the strings that reach it in this program,
  which are runs of digits and full stops: the call raises \<open>ValueError\<close> (here
  \<open>None\<close>) unless the string is digits with at most one full stop and at least one
  digit. \<open>float_repr\<close> is \<open>str\<close> of a float, as an f-string prints it: the integer
  part, a full stop, and the fraction digits without trailing zeros, "0" when there are
  none.
\<close>

datatype error = ValueError

definition nat_of_digits :: "string \<Rightarrow> nat" where
  "nat_of_digits s = foldl (\<lambda>n c. 10 * n + (code c - 48)) 0 s"

definition py_float :: "string \<Rightarrow> rat option" where
  "py_float s =
     (let ip = takeWhile is_decimal s; rest = dropWhile is_decimal s
      in case rest of
           [] \<Rightarrow> if ip = [] then None else Some (of_nat (nat_of_digits ip))
         | c # fp \<Rightarrow>
             if c = CHR ''.'' \<and> list_all is_decimal fp \<and> (ip \<noteq> [] \<or> fp \<noteq> [])
             then Some (of_nat (nat_of_digits (ip @ fp)) / 10 ^ length fp)
             else None)"

fun str_nat :: "nat \<Rightarrow> string" where
  "str_nat n =
     (if n < 10 then [char_of (48 + n)]
      else str_nat (n div 10) @ [char_of (48 + n mod 10)])"

fun frac_digits :: "nat \<Rightarrow> rat \<Rightarrow> string" where
  "frac_digits 0 x = []"
| "frac_digits (Suc n) x =
     (if x = 0 then []
      else let d = nat \<lfloor>x * 10\<rfloor>
           in char_of (48 + d) # frac_digits n (x * 10 - of_nat d))"

definition float_repr :: "rat \<Rightarrow> string" where
  "float_repr x =
     (let ip = nat \<lfloor>x\<rfloor>; fp = x - of_nat ip
      in str_nat ip @ ''.'' @ (if fp = 0 then ''0'' else frac_digits 17 fp))"

section \<open>The processor extractor\<close>

record processor_info =
  proc_brand :: string
  proc_model :: string
  proc_generation :: string
  proc_speed :: string
  proc_cores :: string

definition brands :: "string list" where
  "brands = [''Intel'', ''AMD'', ''Apple'']"

text \<open>\<open>(\d+)(?:th|st|nd|rd)\s*Gen\<close>\<close>

definition gen_rx :: rx where
  "gen_rx =
     Cat (Grp (Plus digit))
       (Cat (Alt (lit ''th'') (Alt (lit ''st'') (Alt (lit ''nd'') (lit ''rd''))))
         (Cat (Star space) (lit ''Gen'')))"

text \<open>The table \<open>cpu_models\<close>, in the order the dictionary is written.\<close>

definition cpu_models :: "(rx \<times> string) list" where
  "cpu_models =
     [(lit ''i3'', ''Core i3''),
      (lit ''i5'', ''Core i5''),
      (lit ''i7'', ''Core i7''),
      (lit ''i9'', ''Core i9''),
      (Cat (lit ''ryzen'') (Cat (Star space) digit), ''Ryzen''),
      (lit ''celeron'', ''Celeron''),
      (lit ''pentium'', ''Pentium'')]"

text \<open>\<open>([\d.]+)\s*(?:GHz|MHz)\<close>\<close>

definition speed_rx :: rx where
  "speed_rx =
     Cat (Grp (Plus (In [Digit, Lit CHR ''.''])))
       (Cat (Star space) (Alt (lit ''GHz'') (lit ''MHz'')))"

text \<open>\<open>(\d+)\s*(?:cores?|processors?)\<close>\<close>

definition cores_rx :: rx where
  "cores_rx =
     Cat (Grp (Plus digit))
       (Cat (Star space)
         (Alt (Cat (lit ''core'') (Opt (lit ''s'')))
              (Cat (lit ''processor'') (Opt (lit ''s'')))))"

text \<open>
  The steps of \<open>_extract_processor_info\<close> on a non-empty processor text, each
  updating the result dictionary. Only the speed step can raise: it calls \<open>float\<close> on
  the first group of the match.
\<close>

definition set_brand :: "string \<Rightarrow> processor_info \<Rightarrow> processor_info" where
  "set_brand processor_info result =
     (case first_where (\<lambda>brand. str_in (lower brand) (lower processor_info)) brands of
        Some brand \<Rightarrow> result\<lparr>proc_brand := brand\<rparr>
      | None \<Rightarrow> result)"

definition set_generation :: "string \<Rightarrow> processor_info \<Rightarrow> processor_info" where
  "set_generation processor_info result =
     (case re_search gen_rx True processor_info of
        Some gen_match \<Rightarrow> result\<lparr>proc_generation := group gen_match 1 @ ''th Gen''\<rparr>
      | None \<Rightarrow> result)"

definition set_model :: "string \<Rightarrow> processor_info \<Rightarrow> processor_info" where
  "set_model processor_info result =
     (case first_where (\<lambda>pm. re_search (fst pm) True processor_info \<noteq> None) cpu_models of
        Some pm \<Rightarrow> result\<lparr>proc_model := snd pm\<rparr>
      | None \<Rightarrow> result)"

definition set_speed :: "string \<Rightarrow> processor_info \<Rightarrow> error + processor_info" where
  "set_speed processor_info result =
     (case re_search speed_rx True processor_info of
        Some speed_match \<Rightarrow>
          (case py_float (group speed_match 1) of
             None \<Rightarrow> Inl ValueError
           | Some speed \<Rightarrow>
               let unit = (if str_in ''MHz'' (upper (group0 speed_match))
                           then ''MHz'' else ''GHz'')
               in Inr (result\<lparr>proc_speed := float_repr speed @ '' '' @ unit\<rparr>))
      | None \<Rightarrow> Inr result)"

definition set_cores :: "string \<Rightarrow> processor_info \<Rightarrow> processor_info" where
  "set_cores processor_info result =
     (case re_search cores_rx True processor_info of
        Some cores_match \<Rightarrow> result\<lparr>proc_cores := group cores_match 1\<rparr>
      | None \<Rightarrow> result)"

definition extract_processor_info :: "specs \<Rightarrow> error + processor_info" where
  "extract_processor_info specs =
     (let result = \<lparr>proc_brand = '''', proc_model = '''', proc_generation = '''',
                     proc_speed = '''', proc_cores = ''''\<rparr>;
          processor_info = first_present specs [''processor_type'', ''processor'', ''cpu_model'']
      in if processor_info \<noteq> [] then
           (case set_speed processor_info
                   (set_model processor_info
                     (set_generation processor_info (set_brand processor_info result))) of
              Inl e \<Rightarrow> Inl e
            | Inr result \<Rightarrow> Inr (set_cores processor_info result))
         else Inr result)"

section \<open>Theorems\<close>

text \<open>
  C4. On the RAM text "16GB LPDDR4X" the extractor returns the type "DDR4": the scan
  tries "DDR4" first, and "DDR4" occurs in "LPDDR4X".
\<close>

theorem ram_lpddr4x_returns_ddr4:
  "extract_ram_info [''ram'' \<mapsto> ''16GB LPDDR4X'']
     = \<lparr>ram_size = ''16GB'', ram_type = ''DDR4'', ram_speed = ''''\<rparr>"
  by code_simp

text \<open>
  C8. The processor text "Intel Core i7-1260P, 12th Gen, 2.10GHz, 4 cores" yields brand
  "Intel", model "Core i7", generation "12th Gen", speed "2.1 GHz" and cores "4".
\<close>

theorem processor_round_trip:
  "extract_processor_info
     [''processor'' \<mapsto> ''Intel Core i7-1260P, 12th Gen, 2.10GHz, 4 cores'']
   = Inr \<lparr>proc_brand = ''Intel'', proc_model = ''Core i7'', proc_generation = ''12th Gen'',
           proc_speed = ''2.1 GHz'', proc_cores = ''4''\<rparr>"
  by code_simp

text \<open>
  C3. The processor extractor raises \<open>ValueError\<close> on a processor text whose speed is
  written as a range with two full stops: the speed pattern matches "2.4..4.2 GHz" and
  \<open>float\<close> rejects its first group "2.4..4.2".
\<close>

theorem processor_extractor_raises:
  "extract_processor_info [''processor'' \<mapsto> ''Intel Core i5 2.4..4.2 GHz'']
   = Inl ValueError"
  by code_simp

end
